theory Spec2Isabelle
  imports Main "HOL-Library.Log_Nat" "HOL-Library.Sublist"
begin

section \<open>Python values\<close>

text \<open>
  A Python \<open>float\<close> is an IEEE 754 binary64 number. A finite one is carried by its exact
  rational value (the two signed zeros are identified, as Python's \<open>==\<close> does).
\<close>

datatype pyfloat = Finite rat | PosInf | NegInf | NaN

text \<open>
  The objects that \<open>resp.json()\<close> and the evaluation of a literal display produce.
  A \<open>dict\<close> is the list of its items; its keys are strings.
\<close>

datatype pyval =
    PNone
  | PBool bool
  | PInt int
  | PFloat pyfloat
  | PStr string
  | PList "pyval list"
  | PDict "(string \<times> pyval) list"

datatype py_error =
    KeyError pyval
  | IndexError
  | TypeError
  | OverflowError
  | EOFError
  | ClientError string
  | OpenAIError string

subsection \<open>binary64 arithmetic\<close>

definition pow2 :: "int \<Rightarrow> rat" where
  "pow2 e = (if 0 \<le> e then 2 ^ nat e else 1 / 2 ^ nat (- e))"

definition round_half_even :: "rat \<Rightarrow> int" where
  "round_half_even x =
     (let f = \<lfloor>x\<rfloor>; d = x - of_int f
      in if d < 1 / 2 then f
         else if 1 / 2 < d then f + 1
         else if even f then f else f + 1)"

text \<open>\<open>ilog2 r\<close> is the binary exponent of a non-zero \<open>r\<close>: \<open>2 ^ ilog2 r \<le> \<bar>r\<bar> < 2 ^ (ilog2 r + 1)\<close>.\<close>

definition ilog2 :: "rat \<Rightarrow> int" where
  "ilog2 r =
     (let (n, d) = quotient_of \<bar>r\<bar>;
          e0 = int (floorlog 2 (nat n)) - int (floorlog 2 (nat d))
      in if pow2 e0 \<le> \<bar>r\<bar> then e0 else e0 - 1)"

text \<open>
  Rounding of an exact value to binary64: to nearest, ties to even, 53 significant bits,
  subnormals below \<open>2 ^ -1022\<close>, overflow to an infinity from \<open>2 ^ 1024\<close> on.
\<close>

definition float_of_rat :: "rat \<Rightarrow> pyfloat" where
  "float_of_rat r =
     (if r = 0 then Finite 0
      else let e = max (ilog2 r) (- 1022);
               u = pow2 (e - 52);
               v = of_int (round_half_even (r / u)) * u
           in if pow2 1024 \<le> \<bar>v\<bar> then (if 0 < r then PosInf else NegInf)
              else Finite v)"

text \<open>\<open>x - y\<close> on two floats.\<close>

fun float_sub :: "pyfloat \<Rightarrow> pyfloat \<Rightarrow> pyfloat" where
  "float_sub (Finite a) (Finite b) = float_of_rat (a - b)"
| "float_sub NaN _ = NaN"
| "float_sub _ NaN = NaN"
| "float_sub PosInf PosInf = NaN"
| "float_sub NegInf NegInf = NaN"
| "float_sub PosInf _ = PosInf"
| "float_sub NegInf _ = NegInf"
| "float_sub (Finite a) PosInf = NegInf"
| "float_sub (Finite a) NegInf = PosInf"

text \<open>Conversion of an \<open>int\<close> operand to \<open>float\<close>; too large an \<open>int\<close> raises.\<close>

definition float_of_int :: "int \<Rightarrow> py_error + pyfloat" where
  "float_of_int i =
     (case float_of_rat (of_int i) of
        Finite v \<Rightarrow> Inr (Finite v)
      | _ \<Rightarrow> Inl OverflowError)"

text \<open>\<open>v - c\<close> for a float constant \<open>c\<close>: \<open>bool\<close> is an \<open>int\<close>; other operands raise.\<close>

fun sub_float :: "pyval \<Rightarrow> pyfloat \<Rightarrow> py_error + pyfloat" where
  "sub_float (PFloat x) c = Inr (float_sub x c)"
| "sub_float (PInt i) c =
     (case float_of_int i of Inl e \<Rightarrow> Inl e | Inr x \<Rightarrow> Inr (float_sub x c))"
| "sub_float (PBool b) c =
     (case float_of_int (if b then 1 else 0) of Inl e \<Rightarrow> Inl e | Inr x \<Rightarrow> Inr (float_sub x c))"
| "sub_float _ c = Inl TypeError"

text \<open>
  \<open>round(x, 1)\<close> on a float: the exact value is rounded to one decimal digit, ties to the
  even digit, and the decimal is converted back to binary64; infinities and NaN are
  returned as they are.
\<close>

fun round1 :: "pyfloat \<Rightarrow> py_error + pyfloat" where
  "round1 (Finite x) =
     (case float_of_rat (of_int (round_half_even (x * 10)) / 10) of
        Finite v \<Rightarrow> Inr (Finite v)
      | _ \<Rightarrow> Inl OverflowError)"
| "round1 x = Inr x"

subsection \<open>Subscription\<close>

text \<open>\<open>xs[i]\<close> on a sequence: a negative index counts from the end.\<close>

definition seq_index :: "'a list \<Rightarrow> int \<Rightarrow> py_error + 'a" where
  "seq_index xs i =
     (if 0 \<le> i
      then (if nat i < length xs then Inr (xs ! nat i) else Inl IndexError)
      else (if nat (- i) \<le> length xs then Inr (xs ! (length xs - nat (- i)))
            else Inl IndexError))"

text \<open>\<open>v[k]\<close>.\<close>

fun getitem :: "pyval \<Rightarrow> pyval \<Rightarrow> py_error + pyval" where
  "getitem (PDict kvs) (PStr k) =
     (case map_of kvs k of None \<Rightarrow> Inl (KeyError (PStr k)) | Some v \<Rightarrow> Inr v)"
| "getitem (PDict kvs) (PList _) = Inl TypeError"
| "getitem (PDict kvs) (PDict _) = Inl TypeError"
| "getitem (PDict kvs) k = Inl (KeyError k)"
| "getitem (PList xs) (PInt i) = seq_index xs i"
| "getitem (PList xs) (PBool b) = seq_index xs (if b then 1 else 0)"
| "getitem (PStr s) (PInt i) =
     (case seq_index s i of Inl e \<Rightarrow> Inl e | Inr c \<Rightarrow> Inr (PStr [c]))"
| "getitem (PStr s) (PBool b) =
     (case seq_index s (if b then 1 else 0) of Inl e \<Rightarrow> Inl e | Inr c \<Rightarrow> Inr (PStr [c]))"
| "getitem _ _ = Inl TypeError"


section \<open>The weather lookup client\<close>

record weather_result =
  conditions :: pyval
  temperature :: pyfloat

text \<open>
  The transcript: a message is a dict with the keys \<open>role\<close>, \<open>content\<close> and, for a function
  result, \<open>name\<close>. The content of a function result is \<open>str(weather_data)\<close>; the text that
  \<open>str\<close> prints is not modelled, the message carries the dict it was printed from.
\<close>

datatype content_value = Text string | NoContent | StrOf weather_result

record message =
  role :: string
  name :: "string option"
  content :: content_value

text \<open>
  The reply of the chat endpoint. The \<open>arguments\<close> of a function call are the text of a
  Python expression, since the loop hands them to \<open>eval\<close>: \<open>Literal v\<close> is a text that is a
  literal display (of strings, numbers, lists and dicts with string keys) denoting \<open>v\<close>,
  \<open>Code src\<close> is any other expression text.
\<close>

datatype payload = Literal pyval | Code string

record function_call =
  fname :: string
  arguments :: payload

record assistant_message =
  msg_content :: "string option"
  function_call :: "function_call option"

text \<open>
  What the session does to the outside world, in order: a \<open>print\<close>, an \<open>input\<close> (the prompt
  and the line read), a call of the chat endpoint (the transcript sent, and whether the
  function schema goes with it), a lookup at the weather provider (the location sent).
\<close>

datatype event =
    Print string
  | Input string
  | ModelCall "message list" bool
  | WeatherCall pyval

record state =
  messages :: "message list"
  trace :: "event list"

text \<open>
  The outside world: the constructor of the chat client, the chat endpoint (its answer to
  a transcript, sent with or without the function schema: the list of \<open>choices\<close>) and the
  weather provider (its answer, at a moment of the session, to a lookup: the decoded JSON
  body). Each may raise instead.
\<close>

record env =
  client_init :: "py_error option"
  create :: "message list \<Rightarrow> bool \<Rightarrow> py_error + assistant_message list"
  http_get :: "nat \<Rightarrow> pyval \<Rightarrow> py_error + pyval"

definition kelvin_offset :: pyfloat where
  "kelvin_offset = float_of_rat 273.15"

definition fetch_weather_from_api :: "env \<Rightarrow> nat \<Rightarrow> pyval \<Rightarrow> py_error + weather_result" where
  "fetch_weather_from_api env t location =
     (case http_get env t location of Inl e \<Rightarrow> Inl e | Inr data \<Rightarrow>
      case getitem data (PStr ''main'') of Inl e \<Rightarrow> Inl e | Inr m \<Rightarrow>
      case getitem m (PStr ''temp'') of Inl e \<Rightarrow> Inl e | Inr temp_k \<Rightarrow>
      case sub_float temp_k kelvin_offset of Inl e \<Rightarrow> Inl e | Inr temp \<Rightarrow>
      case getitem data (PStr ''weather'') of Inl e \<Rightarrow> Inl e | Inr ws \<Rightarrow>
      case getitem ws (PInt 0) of Inl e \<Rightarrow> Inl e | Inr w \<Rightarrow>
      case getitem w (PStr ''description'') of Inl e \<Rightarrow> Inl e | Inr conds \<Rightarrow>
      case round1 temp of Inl e \<Rightarrow> Inl e | Inr rounded \<Rightarrow>
        Inr \<lparr>conditions = conds, temperature = rounded\<rparr>)"

section \<open>The conversation loop\<close>

text \<open>
  Strings are ASCII text. On it \<open>str.strip\<close> removes, at both ends, the characters that
  Python counts as whitespace (\<open>0x09\<close> to \<open>0x0D\<close>, \<open>0x1C\<close> to \<open>0x1F\<close> and the space),
  and \<open>str.lower\<close> maps \<open>A\<close> to \<open>Z\<close> to \<open>a\<close> to \<open>z\<close> and leaves every other character.
\<close>

definition whitespace :: "char list" where
  "whitespace =
     [CHR 0x09, CHR 0x0A, CHR 0x0B, CHR 0x0C, CHR 0x0D, CHR 0x1C, CHR 0x1D, CHR 0x1E, CHR 0x1F,
      CHR '' '']"

definition is_space :: "char \<Rightarrow> bool" where
  "is_space c = (c \<in> set whitespace)"

definition strip :: "string \<Rightarrow> string" where
  "strip s = rev (dropWhile is_space (rev (dropWhile is_space s)))"

definition lower_char :: "char \<Rightarrow> char" where
  "lower_char c =
     (case map_of (zip ''ABCDEFGHIJKLMNOPQRSTUVWXYZ'' ''abcdefghijklmnopqrstuvwxyz'') c of
        None \<Rightarrow> c
      | Some l \<Rightarrow> l)"

definition lower :: "string \<Rightarrow> string" where
  "lower s = map lower_char s"

definition system_msg :: message where
  "system_msg = \<lparr>role = ''system'', name = None, content = Text
     ''You are a helpful weather assistant. When users ask about weather, extract the location from the user's message and respond with weather information in Celsius.''\<rparr>"

definition greeting :: string where
  "greeting = ''Chat Bot: Hello! Ask me about the weather by typing the city name or something like (What's the weather like in Berlin). (Type 'quit' anytime to exit)''"

definition user_msg :: "string \<Rightarrow> message" where
  "user_msg user_input = \<lparr>role = ''user'', name = None, content = Text user_input\<rparr>"

definition function_msg :: "weather_result \<Rightarrow> message" where
  "function_msg weather_data =
     \<lparr>role = ''function'', name = Some ''fetch_weather_from_api'', content = StrOf weather_data\<rparr>"

text \<open>The content of a reply is a string or \<open>None\<close>.\<close>

definition assistant_msg :: "string option \<Rightarrow> message" where
  "assistant_msg c =
     \<lparr>role = ''assistant'', name = None,
      content = (case c of None \<Rightarrow> NoContent | Some text \<Rightarrow> Text text)\<rparr>"

definition bot_line :: "string option \<Rightarrow> string" where
  "bot_line c = ''Chat Bot: '' @ (case c of None \<Rightarrow> ''None'' | Some text \<Rightarrow> text)"

text \<open>
  \<open>fetch_weather_from_api(**function_args)\<close>: the value must be a dict, and its keys must be
  exactly the one parameter \<open>location\<close>.
\<close>

fun bind_kwargs :: "pyval \<Rightarrow> py_error + pyval" where
  "bind_kwargs (PDict kvs) =
     (if list_all (\<lambda>kv. fst kv = ''location'') kvs
      then (case map_of kvs ''location'' of None \<Rightarrow> Inl TypeError | Some v \<Rightarrow> Inr v)
      else Inl TypeError)"
| "bind_kwargs _ = Inl TypeError"

text \<open>
  How an iteration, and the session, ends: normally, by an exception that nothing
  catches, or in \<open>eval\<close> running an expression that is not a literal; what that
  expression does is outside the model.
\<close>

datatype outcome = Done state | Raised py_error state | EvalCode string state

fun state_of :: "outcome \<Rightarrow> state" where
  "state_of (Done s) = s"
| "state_of (Raised e s) = s"
| "state_of (EvalCode src s) = s"

text \<open>\<open>client.chat.completions.create(...)\<close> followed by \<open>.choices[0].message\<close>.\<close>

definition chat_completion :: "env \<Rightarrow> state \<Rightarrow> bool \<Rightarrow> (py_error + assistant_message) \<times> state" where
  "chat_completion env s functions =
     (let s' = s\<lparr>trace := trace s @ [ModelCall (messages s) functions]\<rparr>
      in case create env (messages s) functions of
           Inl e \<Rightarrow> (Inl e, s')
         | Inr [] \<Rightarrow> (Inl IndexError, s')
         | Inr (choice # _) \<Rightarrow> (Inr choice, s'))"

definition reply :: "state \<Rightarrow> string option \<Rightarrow> state" where
  "reply s c =
     s\<lparr>trace := trace s @ [Print (bot_line c)], messages := messages s @ [assistant_msg c]\<rparr>"

text \<open>One iteration of the loop body, after the \<open>quit\<close> test.\<close>

definition turn :: "env \<Rightarrow> state \<Rightarrow> string \<Rightarrow> outcome" where
  "turn env s user_input =
     (let s1 = s\<lparr>messages := messages s @ [user_msg user_input]\<rparr>
      in case chat_completion env s1 True of
           (Inl e, s2) \<Rightarrow> Raised e s2
         | (Inr assistant_message, s2) \<Rightarrow>
           (case function_call assistant_message of
              None \<Rightarrow> Done (reply s2 (msg_content assistant_message))
            | Some fc \<Rightarrow>
              (case arguments fc of
                 Code src \<Rightarrow> EvalCode src s2
               | Literal function_args \<Rightarrow>
                 (case bind_kwargs function_args of
                    Inl e \<Rightarrow> Raised e s2
                  | Inr location \<Rightarrow>
                    (let s3 = s2\<lparr>trace := trace s2 @ [WeatherCall location]\<rparr>
                     in case fetch_weather_from_api env (length (trace s2)) location of
                          Inl e \<Rightarrow> Raised e s3
                        | Inr weather_data \<Rightarrow>
                          (let s4 = s3\<lparr>messages := messages s3 @ [function_msg weather_data]\<rparr>
                           in case chat_completion env s4 False of
                                (Inl e, s5) \<Rightarrow> Raised e s5
                              | (Inr second, s5) \<Rightarrow> Done (reply s5 (msg_content second))))))))"

text \<open>
  The \<open>while True\<close> loop over the lines that standard input still holds; \<open>input\<close> raises
  \<open>EOFError\<close> when there is none.
\<close>

fun loop :: "env \<Rightarrow> state \<Rightarrow> string list \<Rightarrow> outcome" where
  "loop env s [] = Raised EOFError s"
| "loop env s (line # rest) =
     (let s0 = s\<lparr>trace := trace s @ [Input line]\<rparr>;
          user_input = strip line
      in if lower user_input = ''quit''
         then Done (s0\<lparr>trace := trace s0 @ [Print ''Chat Bot: Goodbye!'']\<rparr>)
         else (case turn env s0 user_input of
                 Done s' \<Rightarrow> loop env s' rest
               | r \<Rightarrow> r))"

definition chat_with_bot :: "env \<Rightarrow> string list \<Rightarrow> outcome" where
  "chat_with_bot env inputs =
     (case client_init env of
        Some e \<Rightarrow> Raised e \<lparr>messages = [], trace = []\<rparr>
      | None \<Rightarrow> loop env \<lparr>messages = [system_msg], trace = [Print greeting]\<rparr> inputs)"

section \<open>Reading the trace\<close>

text \<open>The model calls of a trace, in order: the transcript sent and whether the schema went with it.\<close>

fun calls :: "event list \<Rightarrow> (message list \<times> bool) list" where
  "calls [] = []"
| "calls (ModelCall ms functions # es) = (ms, functions) # calls es"
| "calls (e # es) = calls es"


text \<open>The weather lookups issued, in order.\<close>

fun lookups :: "event list \<Rightarrow> pyval list" where
  "lookups [] = []"
| "lookups (WeatherCall location # es) = location # lookups es"
| "lookups (e # es) = lookups es"


section \<open>Sample inputs\<close>

definition sample_body :: pyval where
  "sample_body =
     PDict [(''main'', PDict [(''temp'', PFloat (float_of_rat 300.15))]),
            (''weather'', PList [PDict [(''description'', PStr ''clear sky'')]])]"

text \<open>A body without the \<open>weather\<close> list.\<close>

definition sample_body_no_weather :: pyval where
  "sample_body_no_weather = PDict [(''main'', PDict [(''temp'', PFloat (float_of_rat 300.15))])]"

text \<open>A world whose provider answers every lookup with the given body.\<close>

definition provider_env :: "pyval \<Rightarrow> env" where
  "provider_env body =
     \<lparr>client_init = None, create = (\<lambda>ms functions. Inr []), http_get = (\<lambda>t location. Inr body)\<rparr>"

text \<open>
  A world whose chat endpoint gives one answer to the calls that carry the schema and one to
  those that do not, and whose provider gives one answer to every lookup.
\<close>

definition scripted_env ::
  "(py_error + assistant_message list) \<Rightarrow> (py_error + assistant_message list) \<Rightarrow>
   (py_error + pyval) \<Rightarrow> env" where
  "scripted_env first second body =
     \<lparr>client_init = None,
      create = (\<lambda>ms functions. if functions then first else second),
      http_get = (\<lambda>t location. body)\<rparr>"

definition direct_reply :: "assistant_message list" where
  "direct_reply = [\<lparr>msg_content = Some ''Hello!'', function_call = None\<rparr>]"

definition weather_request :: "payload \<Rightarrow> assistant_message list" where
  "weather_request p =
     [\<lparr>msg_content = None,
       function_call = Some \<lparr>fname = ''fetch_weather_from_api'', arguments = p\<rparr>\<rparr>]"

definition final_reply :: "assistant_message list" where
  "final_reply = [\<lparr>msg_content = Some ''It is 27.0 degrees with a clear sky.'', function_call = None\<rparr>]"

definition berlin :: payload where
  "berlin = Literal (PDict [(''location'', PStr ''Berlin'')])"

definition start :: state where
  "start = \<lparr>messages = [system_msg], trace = [Print greeting]\<rparr>"

section \<open>Facts about binary64 rounding\<close>

lemma pow2_powi: "pow2 e = 2 powi e"
  by (simp add: pow2_def power_int_def inverse_eq_divide power_one_over)

lemma pow2_pos: "0 < pow2 e"
  by (simp add: pow2_powi)

lemma pow2_add: "pow2 (a + b) = pow2 a * pow2 b"
  by (simp add: pow2_powi power_int_add)

lemma pow2_of_nat: "pow2 (int n) = 2 ^ n"
  by (simp add: pow2_def)

lemma pow2_less_iff: "pow2 a < pow2 b \<longleftrightarrow> a < b"
  unfolding pow2_powi
  by (metis linorder_neqE_linordered_idom not_less_iff_gr_or_eq one_less_numeral_iff power_int_strict_increasing semiring_norm(76))

lemma pow2_le_iff: "pow2 a \<le> pow2 b \<longleftrightarrow> a \<le> b"
  using pow2_less_iff [of b a] by (auto simp: not_less [symmetric])

lemma pow2_window_unique:
  assumes "pow2 a \<le> x" "x < pow2 (a + 1)" "pow2 b \<le> x" "x < pow2 (b + 1)"
  shows "a = b"
proof -
  have "pow2 a < pow2 (b + 1)" using assms by simp
  then have "a < b + 1" by (simp add: pow2_less_iff)
  moreover have "pow2 b < pow2 (a + 1)" using assms by simp
  then have "b < a + 1" by (simp add: pow2_less_iff)
  ultimately show ?thesis by simp
qed

lemma ilog2_bounds:
  assumes "r \<noteq> 0"
  shows "pow2 (ilog2 r) \<le> \<bar>r\<bar> \<and> \<bar>r\<bar> < pow2 (ilog2 r + 1)"
proof -
  obtain n d where q: "quotient_of \<bar>r\<bar> = (n, d)" by force
  have d: "0 < d" using quotient_of_denom_pos [OF q] .
  have r: "\<bar>r\<bar> = of_int n / of_int d" using quotient_of_div [OF q] .
  have n: "0 < n"
  proof -
    have "0 < \<bar>r\<bar>" using assms by simp
    then show ?thesis using d unfolding r by (simp add: zero_less_divide_iff)
  qed
  define a where "a = floorlog 2 (nat n)"
  define b where "b = floorlog 2 (nat d)"
  have an: "2 ^ (a - 1) \<le> nat n \<and> nat n < 2 ^ a"
    unfolding a_def using floorlog_bounds [of "nat n" 2] n by simp
  have bd: "2 ^ (b - 1) \<le> nat d \<and> nat d < 2 ^ b"
    unfolding b_def using floorlog_bounds [of "nat d" 2] d by simp
  have a1: "1 \<le> a" unfolding a_def using n by (simp add: floorlog_def)
  have b1: "1 \<le> b" unfolding b_def using d by (simp add: floorlog_def)
  have nlo: "(2::rat) ^ (a - 1) \<le> of_int n"
  proof -
    have "int (2 ^ (a - 1)) \<le> int (nat n)" using an by (simp only: of_nat_le_iff)
    then have "(2::int) ^ (a - 1) \<le> n" using n by simp
    then have "(of_int ((2::int) ^ (a - 1)) :: rat) \<le> of_int n" by (simp only: of_int_le_iff)
    then show ?thesis by simp
  qed
  have nhi: "(of_int n :: rat) < 2 ^ a"
  proof -
    have "int (nat n) < int (2 ^ a)" using an by (simp only: of_nat_less_iff)
    then have "n < (2::int) ^ a" using n by simp
    then have "(of_int n :: rat) < of_int ((2::int) ^ a)" by (simp only: of_int_less_iff)
    then show ?thesis by simp
  qed
  have dlo: "(2::rat) ^ (b - 1) \<le> of_int d"
  proof -
    have "int (2 ^ (b - 1)) \<le> int (nat d)" using bd by (simp only: of_nat_le_iff)
    then have "(2::int) ^ (b - 1) \<le> d" using d by simp
    then have "(of_int ((2::int) ^ (b - 1)) :: rat) \<le> of_int d" by (simp only: of_int_le_iff)
    then show ?thesis by simp
  qed
  have dhi: "(of_int d :: rat) < 2 ^ b"
  proof -
    have "int (nat d) < int (2 ^ b)" using bd by (simp only: of_nat_less_iff)
    then have "d < (2::int) ^ b" using d by simp
    then have "(of_int d :: rat) < of_int ((2::int) ^ b)" by (simp only: of_int_less_iff)
    then show ?thesis by simp
  qed
  define e0 where "e0 = int a - int b"
  have dpos: "(0::rat) < of_int d" using d by simp
  have lo: "pow2 (e0 - 1) \<le> \<bar>r\<bar>"
  proof -
    have "e0 - 1 = int (a - 1) + (- int b)" using a1 by (simp add: e0_def)
    then have "pow2 (e0 - 1) = pow2 (int (a - 1) + (- int b))" by (simp only:)
    also have "\<dots> = pow2 (int (a - 1)) * pow2 (- int b)" by (rule pow2_add)
    also have "pow2 (int (a - 1)) = 2 ^ (a - 1)" by (rule pow2_of_nat)
    also have "pow2 (- int b) = 1 / 2 ^ b" by (simp add: pow2_powi power_int_minus_divide)
    finally have eq: "pow2 (e0 - 1) = 2 ^ (a - 1) / 2 ^ b" by simp
    have "(2::rat) ^ (a - 1) / 2 ^ b \<le> of_int n / 2 ^ b"
      using nlo by (simp add: divide_right_mono)
    also have "\<dots> \<le> of_int n / of_int d"
      using dhi dpos n by (simp add: frac_le)
    finally show ?thesis unfolding eq r .
  qed
  have hi: "\<bar>r\<bar> < pow2 (e0 + 1)"
  proof -
    have "e0 + 1 = int a + (- int (b - 1))" using b1 by (simp add: e0_def)
    then have "pow2 (e0 + 1) = pow2 (int a + (- int (b - 1)))" by (simp only:)
    also have "\<dots> = pow2 (int a) * pow2 (- int (b - 1))" by (rule pow2_add)
    also have "pow2 (int a) = 2 ^ a" by (rule pow2_of_nat)
    also have "pow2 (- int (b - 1)) = 1 / 2 ^ (b - 1)"
      by (simp only: pow2_powi power_int_minus_divide power_int_of_nat)
    finally have eq: "pow2 (e0 + 1) = 2 ^ a / 2 ^ (b - 1)" by simp
    have "of_int n / of_int d \<le> (of_int n :: rat) / 2 ^ (b - 1)"
      using dlo n by (simp add: frac_le)
    also have "\<dots> < 2 ^ a / 2 ^ (b - 1)"
      using nhi by (simp add: divide_strict_right_mono)
    finally show ?thesis unfolding eq r .
  qed
  have il: "ilog2 r = (if pow2 e0 \<le> \<bar>r\<bar> then e0 else e0 - 1)"
    by (simp add: ilog2_def q a_def b_def e0_def Let_def)
  show ?thesis
  proof (cases "pow2 e0 \<le> \<bar>r\<bar>")
    case True
    then show ?thesis using hi il by simp
  next
    case False
    then show ?thesis using lo il by simp
  qed
qed

lemma ilog2_unique:
  assumes "pow2 e \<le> \<bar>r\<bar>" "\<bar>r\<bar> < pow2 (e + 1)"
  shows "ilog2 r = e"
proof -
  have "r \<noteq> 0" using assms pow2_pos [of e] by auto
  from ilog2_bounds [OF this] show ?thesis
    using pow2_window_unique [of "ilog2 r" "\<bar>r\<bar>" e] assms by simp
qed

lemma float_of_rat_normal:
  assumes "pow2 e \<le> \<bar>r\<bar>" "\<bar>r\<bar> < pow2 (e + 1)" "- 1022 \<le> e"
    and "round_half_even (r / pow2 (e - 52)) = m"
    and "\<bar>of_int m * pow2 (e - 52)\<bar> < pow2 1024"
  shows "float_of_rat r = Finite (of_int m * pow2 (e - 52))"
proof -
  have "r \<noteq> 0" using assms pow2_pos [of e] by auto
  moreover have "max (ilog2 r) (- 1022) = e"
    using ilog2_unique [OF assms(1,2)] assms(3) by simp
  ultimately show ?thesis
    using assms(4,5) by (simp add: float_of_rat_def Let_def)
qed

lemma floor_rat_numeral:
  "\<lfloor>numeral a / numeral b :: rat\<rfloor> = numeral a div numeral b"
  by (metis floor_divide_of_int_eq of_int_numeral)

lemma floor_rat_neg_numeral:
  "\<lfloor>- (numeral a / numeral b) :: rat\<rfloor> = - numeral a div numeral b"
  by (metis divide_minus_left floor_divide_of_int_eq of_int_neg_numeral of_int_numeral)

lemmas rhe_eval = round_half_even_def Let_def floor_rat_numeral floor_rat_neg_numeral

text \<open>The doubles nearest to the decimals that the examples use.\<close>

lemma float_0: "float_of_rat 0 = Finite 0"
  by (simp add: float_of_rat_def)

lemma float_300_15: "float_of_rat 300.15 = Finite (2640147320615731 / 8796093022208)"
  using float_of_rat_normal [of 8 "300.15" 5280294641231462]
  by (simp add: pow2_def rhe_eval)

lemma float_273_15: "float_of_rat 273.15 = Finite (2402652809016115 / 8796093022208)"
  using float_of_rat_normal [of 8 "273.15" 4805305618032230]
  by (simp add: pow2_def rhe_eval)

lemma float_27: "float_of_rat 27 = Finite 27"
  using float_of_rat_normal [of 4 27 7599824371187712]
  by (simp add: pow2_def rhe_eval)

lemma float_20: "float_of_rat 20 = Finite 20"
  using float_of_rat_normal [of 4 20 5629499534213120]
  by (simp add: pow2_def rhe_eval)

lemma float_20_04: "float_of_rat 20.04 = Finite (2820379266640773 / 140737488355328)"
  using float_of_rat_normal [of 4 "20.04" 5640758533281546]
  by (simp add: pow2_def rhe_eval)

lemma float_20_06: "float_of_rat 20.06 = Finite (5646388032815759 / 281474976710656)"
  using float_of_rat_normal [of 4 "20.06" 5646388032815759]
  by (simp add: pow2_def rhe_eval)

lemma float_20_1: "float_of_rat 20.1 = Finite (2828823515942093 / 140737488355328)"
  using float_of_rat_normal [of 4 "20.1" 5657647031884186]
  by (simp add: pow2_def rhe_eval)

lemmas float_examples =
  float_0 float_300_15 [simplified] float_273_15 [simplified] float_27 float_20
  float_20_04 [simplified] float_20_06 [simplified] float_20_1 [simplified]

lemma celsius_300_15:
  "round1 (float_sub (float_of_rat 300.15) (float_of_rat 273.15)) = Inr (Finite 27)"
  by (simp add: float_examples rhe_eval)

lemma celsius_273_15:
  "round1 (float_sub (float_of_rat 273.15) (float_of_rat 273.15)) = Inr (Finite 0)"
  by (simp add: float_examples rhe_eval)

lemma round1_20_04: "round1 (float_of_rat 20.04) = Inr (float_of_rat 20)"
  by (simp add: float_examples rhe_eval)

lemma round1_20_06: "round1 (float_of_rat 20.06) = Inr (float_of_rat 20.1)"
  by (simp add: float_examples rhe_eval)

section \<open>The weather lookup client: results and failures\<close>

lemma fetch_on_data:
  assumes "http_get env t location = Inr data"
    and "getitem data (PStr ''main'') = Inr m"
    and "getitem m (PStr ''temp'') = Inr temp_k"
    and "getitem data (PStr ''weather'') = Inr ws"
    and "getitem ws (PInt 0) = Inr w"
    and "getitem w (PStr ''description'') = Inr d"
  shows "fetch_weather_from_api env t location =
           (case sub_float temp_k kelvin_offset of Inl e \<Rightarrow> Inl e | Inr temp \<Rightarrow>
            case round1 temp of Inl e \<Rightarrow> Inl e | Inr c \<Rightarrow>
              Inr \<lparr>conditions = d, temperature = c\<rparr>)"
  using assms by (simp add: fetch_weather_from_api_def split: sum.splits)

text \<open>
  C2. When the body holds a Kelvin temperature \<open>k\<close> at \<open>main.temp\<close> (and a description at
  \<open>weather[0].description\<close>), the lookup returns \<open>round(k - 273.15, 1)\<close> as the temperature,
  in binary64 arithmetic, for a float \<open>k\<close> and for an int \<open>k\<close> converted to float. In
  particular \<open>300.15\<close> gives \<open>27.0\<close>, \<open>273.15\<close> gives \<open>0.0\<close>, and \<open>round\<close> takes
  \<open>20.04\<close> to \<open>20.0\<close> and \<open>20.06\<close> to \<open>20.1\<close>.
\<close>

theorem fetch_temperature_celsius:
  assumes "http_get env t location = Inr data"
    and "getitem data (PStr ''main'') = Inr m"
    and "getitem data (PStr ''weather'') = Inr ws"
    and "getitem ws (PInt 0) = Inr w"
    and "getitem w (PStr ''description'') = Inr d"
  shows "(getitem m (PStr ''temp'') = Inr (PFloat k) \<longrightarrow>
            fetch_weather_from_api env t location =
              (case round1 (float_sub k (float_of_rat 273.15)) of
                 Inl e \<Rightarrow> Inl e
               | Inr c \<Rightarrow> Inr \<lparr>conditions = d, temperature = c\<rparr>))
       \<and> (getitem m (PStr ''temp'') = Inr (PInt i) \<and> float_of_int i = Inr (Finite x) \<longrightarrow>
            fetch_weather_from_api env t location =
              (case round1 (float_sub (Finite x) (float_of_rat 273.15)) of
                 Inl e \<Rightarrow> Inl e
               | Inr c \<Rightarrow> Inr \<lparr>conditions = d, temperature = c\<rparr>))
       \<and> round1 (float_sub (float_of_rat 300.15) (float_of_rat 273.15)) = Inr (float_of_rat 27)
       \<and> round1 (float_sub (float_of_rat 273.15) (float_of_rat 273.15)) = Inr (float_of_rat 0)
       \<and> round1 (float_of_rat 20.04) = Inr (float_of_rat 20)
       \<and> round1 (float_of_rat 20.06) = Inr (float_of_rat 20.1)"
proof -
  have a: "getitem m (PStr ''temp'') = Inr (PFloat k) \<longrightarrow>
            fetch_weather_from_api env t location =
              (case round1 (float_sub k (float_of_rat 273.15)) of
                 Inl e \<Rightarrow> Inl e
               | Inr c \<Rightarrow> Inr \<lparr>conditions = d, temperature = c\<rparr>)"
    using fetch_on_data [OF assms(1,2) _ assms(3,4,5), of "PFloat k"]
    by (simp add: kelvin_offset_def)
  have b: "getitem m (PStr ''temp'') = Inr (PInt i) \<and> float_of_int i = Inr (Finite x) \<longrightarrow>
            fetch_weather_from_api env t location =
              (case round1 (float_sub (Finite x) (float_of_rat 273.15)) of
                 Inl e \<Rightarrow> Inl e
               | Inr c \<Rightarrow> Inr \<lparr>conditions = d, temperature = c\<rparr>)"
    using fetch_on_data [OF assms(1,2) _ assms(3,4,5), of "PInt i"]
    by (simp add: kelvin_offset_def)
  have c: "round1 (float_sub (float_of_rat 300.15) (float_of_rat 273.15)) = Inr (float_of_rat 27)"
    using celsius_300_15 by (simp only: float_27)
  have d: "round1 (float_sub (float_of_rat 273.15) (float_of_rat 273.15)) = Inr (float_of_rat 0)"
    using celsius_273_15 by (simp only: float_0)
  show ?thesis
    using a b c d round1_20_04 round1_20_06 by blast
qed

theorem fetch_temperature_celsius_witness:
  "fetch_weather_from_api (provider_env sample_body) 0 (PStr ''Berlin'') =
     Inr \<lparr>conditions = PStr ''clear sky'', temperature = float_of_rat 27\<rparr>"
  using fetch_temperature_celsius
    [of "provider_env sample_body" 0 "PStr ''Berlin''" sample_body
        "PDict [(''temp'', PFloat (float_of_rat 300.15))]"
        "PList [PDict [(''description'', PStr ''clear sky'')]]"
        "PDict [(''description'', PStr ''clear sky'')]"
        "PStr ''clear sky''" "float_of_rat 300.15"]
  by (simp add: provider_env_def sample_body_def seq_index_def)

text \<open>
  C3. A body (a JSON object) that lacks \<open>main\<close>, \<open>main.temp\<close>, the \<open>weather\<close> list, its
  first entry or that entry's \<open>description\<close> makes the lookup raise: it returns no result,
  whole or partial. The exception is the \<open>KeyError\<close> of the missing key (\<open>IndexError\<close> for
  an empty list), unless the arithmetic on \<open>main.temp\<close> has raised before.
\<close>

theorem fetch_fails_on_missing_data:
  assumes "http_get env t location = Inr (PDict kvs)"
    and "map_of kvs ''weather'' = None
       \<or> map_of kvs ''weather'' = Some (PList [])
       \<or> (\<exists>w ws. map_of kvs ''weather'' = Some (PList (PDict w # ws)) \<and> map_of w ''description'' = None)
       \<or> map_of kvs ''main'' = None
       \<or> (\<exists>m. map_of kvs ''main'' = Some (PDict m) \<and> map_of m ''temp'' = None)"
  shows "\<exists>e. fetch_weather_from_api env t location = Inl e
           \<and> e \<in> {KeyError (PStr ''main''), KeyError (PStr ''temp''), KeyError (PStr ''weather''),
                  KeyError (PStr ''description''), IndexError, TypeError, OverflowError}"
proof -
  have sub: "sub_float v c = Inl e \<Longrightarrow> e = TypeError \<or> e = OverflowError" for v c e
    by (cases v) (auto simp: float_of_int_def split: pyfloat.splits)
  have item: "getitem v (PStr key) = Inl e \<Longrightarrow> e = TypeError \<or> e = KeyError (PStr key)" for v key e
    by (cases v) (auto split: option.splits)
  show ?thesis
    using assms
    by (auto simp: fetch_weather_from_api_def seq_index_def
             dest!: sub item split: sum.splits option.splits)
qed

theorem fetch_fails_on_missing_data_witness:
  "fetch_weather_from_api (provider_env sample_body_no_weather) 0 (PStr ''Berlin'') =
     Inl (KeyError (PStr ''weather''))"
  using fetch_fails_on_missing_data
    [of "provider_env sample_body_no_weather" 0 "PStr ''Berlin''"
        "[(''main'', PDict [(''temp'', PFloat (float_of_rat 300.15))])]"]
  by (simp add: provider_env_def sample_body_no_weather_def fetch_weather_from_api_def)

text \<open>
  C8. When the body's \<open>weather\<close> list is not empty and its first entry has a
  \<open>description\<close>, the lookup returns a result exactly when the temperature can be
  computed, and the \<open>conditions\<close> of that result are the description, unchanged.
\<close>

theorem conditions_verbatim:
  assumes "http_get env t location = Inr data"
    and "getitem data (PStr ''weather'') = Inr (PList (w # ws))"
    and "getitem w (PStr ''description'') = Inr d"
  shows "fetch_weather_from_api env t location = Inr r \<longleftrightarrow>
           conditions r = d \<and>
           (\<exists>m temp_k temp.
              getitem data (PStr ''main'') = Inr m \<and> getitem m (PStr ''temp'') = Inr temp_k \<and>
              sub_float temp_k kelvin_offset = Inr temp \<and> round1 temp = Inr (temperature r))"
  using assms
  by (auto simp: fetch_weather_from_api_def seq_index_def split: sum.splits)

theorem conditions_verbatim_witness:
  "conditions \<lparr>conditions = PStr ''clear sky'', temperature = float_of_rat 27\<rparr> = PStr ''clear sky''
   \<and> fetch_weather_from_api (provider_env sample_body) 0 (PStr ''Berlin'') =
       Inr \<lparr>conditions = PStr ''clear sky'', temperature = float_of_rat 27\<rparr>"
  using conditions_verbatim
    [of "provider_env sample_body" 0 "PStr ''Berlin''" sample_body
        "PDict [(''description'', PStr ''clear sky'')]" "[]" "PStr ''clear sky''"
        "\<lparr>conditions = PStr ''clear sky'', temperature = float_of_rat 27\<rparr>"]
    celsius_300_15
  by (simp add: provider_env_def sample_body_def kelvin_offset_def float_27)

section \<open>The conversation loop: one iteration\<close>

lemma chat_completion_eq:
  "chat_completion env s f =
     (case create env (messages s) f of
        Inl e \<Rightarrow> Inl e
      | Inr [] \<Rightarrow> Inl IndexError
      | Inr (c # cs) \<Rightarrow> Inr c,
      s\<lparr>trace := trace s @ [ModelCall (messages s) f]\<rparr>)"
  by (simp add: chat_completion_def Let_def split: sum.splits list.splits)

lemmas turn_unfold = turn_def chat_completion_eq Let_def reply_def

lemma lower_char_not_space: "\<not> is_space (lower_char c) \<Longrightarrow> \<not> is_space c"
  by (auto simp: lower_char_def is_space_def whitespace_def)

lemma lower_quit_strip:
  assumes "lower line = ''quit''"
  shows "strip line = line"
proof -
  from assms obtain a b c d where l: "line = [a, b, c, d]"
    and "lower_char a = CHR ''q''" "lower_char d = CHR ''t''"
    by (auto simp: lower_def map_eq_Cons_conv)
  then have "\<not> is_space a" "\<not> is_space d"
    using lower_char_not_space [of a] lower_char_not_space [of d]
    by (simp_all add: is_space_def whitespace_def)
  then show ?thesis using l by (simp add: strip_def)
qed

lemma loop_quit:
  assumes "lower (strip line) = ''quit''"
  shows "loop env s (line # rest) =
           Done (s\<lparr>trace := trace s @ [Input line, Print ''Chat Bot: Goodbye!'']\<rparr>)"
  using assms by (simp add: Let_def)

text \<open>
  C6. A line that is \<open>quit\<close> in any letter casing ends the session: the farewell is
  printed, the loop is left, the transcript is as it was, and no model call and no weather
  lookup is issued, whatever input follows.
\<close>

theorem quit_ends_session:
  assumes "lower line = ''quit''"
  shows "loop env s (line # rest) =
           Done (s\<lparr>trace := trace s @ [Input line, Print ''Chat Bot: Goodbye!'']\<rparr>)
       \<and> messages (state_of (loop env s (line # rest))) = messages s
       \<and> calls (trace (state_of (loop env s (line # rest)))) = calls (trace s)
       \<and> lookups (trace (state_of (loop env s (line # rest)))) = lookups (trace s)"
proof -
  have c: "calls (tr @ [Input l, Print p]) = calls tr" for tr l p
    by (induction tr rule: calls.induct) simp_all
  have w: "lookups (tr @ [Input l, Print p]) = lookups tr" for tr l p
    by (induction tr rule: lookups.induct) simp_all
  show ?thesis
    using assms lower_quit_strip [OF assms] by (simp add: loop_quit c w)
qed

theorem quit_ends_session_witness:
  "lower ''QUIT'' = ''quit'' \<and> lower ''Quit'' = ''quit''
   \<and> loop (scripted_env (Inr direct_reply) (Inr final_reply) (Inr sample_body)) start [''QUIT'', ''hello'']
       = Done (start\<lparr>trace := trace start @ [Input ''QUIT'', Print ''Chat Bot: Goodbye!'']\<rparr>)
   \<and> loop (scripted_env (Inr direct_reply) (Inr final_reply) (Inr sample_body)) start [''Quit'']
       = Done (start\<lparr>trace := trace start @ [Input ''Quit'', Print ''Chat Bot: Goodbye!'']\<rparr>)"
proof -
  have q: "lower ''QUIT'' = ''quit''" "lower ''Quit'' = ''quit''"
    by (simp_all add: lower_def lower_char_def)
  show ?thesis
    using q quit_ends_session [OF q(1)] quit_ends_session [OF q(2)] by simp
qed

lemma scripted_env_simps:
  "client_init (scripted_env a b c) = None"
  "create (scripted_env a b c) ms functions = (if functions then a else b)"
  "http_get (scripted_env a b c) t location = c"
  by (simp_all add: scripted_env_def)

lemma fetch_sample:
  "fetch_weather_from_api (scripted_env a b (Inr sample_body)) t (PStr ''Berlin'') =
     Inr \<lparr>conditions = PStr ''clear sky'', temperature = float_of_rat 27\<rparr>"
  using celsius_300_15
  by (simp add: fetch_weather_from_api_def scripted_env_simps sample_body_def kelvin_offset_def
                float_27 seq_index_def)

lemma turn_direct:
  assumes "create env (messages s @ [user_msg u]) True = Inr (c # cs)" "function_call c = None"
  shows "turn env s u =
           Done (s\<lparr>messages := messages s @ [user_msg u, assistant_msg (msg_content c)],
                   trace := trace s @ [ModelCall (messages s @ [user_msg u]) True,
                                        Print (bot_line (msg_content c))]\<rparr>)"
  using assms by (simp add: turn_unfold)




section \<open>The conversation loop: the session\<close>



lemma loop_raised:
  assumes "lower (strip line) \<noteq> ''quit''"
    and "turn env (s\<lparr>trace := trace s @ [Input line]\<rparr>) (strip line) = Raised e s'"
  shows "loop env s (line # rest) = Raised e s'"
  using assms by (simp add: Let_def)

text \<open>
  C9. An exception of the chat endpoint (on the first or on the second call of an
  iteration) or of the weather lookup ends the session with that exception: the loop has
  no handler, the failed call is the last thing the session does (it is not repeated), and
  the input that follows is never read.
\<close>

theorem errors_end_session:
  assumes "lower (strip line) \<noteq> ''quit''"
    and "ms1 = messages s @ [user_msg (strip line)]"
  shows "(create env ms1 True = Inl e \<longrightarrow>
            loop env s (line # rest) =
              Raised e (s\<lparr>messages := ms1, trace := trace s @ [Input line, ModelCall ms1 True]\<rparr>))
       \<and> (create env ms1 True = Inr (c # cs) \<and> function_call c = Some fc \<and>
          arguments fc = Literal args \<and> bind_kwargs args = Inr loc \<and>
          fetch_weather_from_api env (length (trace s) + 2) loc = Inl e \<longrightarrow>
            loop env s (line # rest) =
              Raised e (s\<lparr>messages := ms1,
                          trace := trace s @ [Input line, ModelCall ms1 True, WeatherCall loc]\<rparr>))
       \<and> (create env ms1 True = Inr (c # cs) \<and> function_call c = Some fc \<and>
          arguments fc = Literal args \<and> bind_kwargs args = Inr loc \<and>
          fetch_weather_from_api env (length (trace s) + 2) loc = Inr w \<and>
          create env (ms1 @ [function_msg w]) False = Inl e \<longrightarrow>
            loop env s (line # rest) =
              Raised e (s\<lparr>messages := ms1 @ [function_msg w],
                          trace := trace s @ [Input line, ModelCall ms1 True, WeatherCall loc,
                                               ModelCall (ms1 @ [function_msg w]) False]\<rparr>))
       \<and> (turn env (s\<lparr>trace := trace s @ [Input line]\<rparr>) (strip line) = Raised e s' \<longrightarrow>
            loop env s (line # rest) = Raised e s')"
proof (intro conjI impI)
  assume "create env ms1 True = Inl e"
  then show "loop env s (line # rest) =
      Raised e (s\<lparr>messages := ms1, trace := trace s @ [Input line, ModelCall ms1 True]\<rparr>)"
    using assms by (simp add: turn_unfold)
next
  assume "create env ms1 True = Inr (c # cs) \<and> function_call c = Some fc \<and>
          arguments fc = Literal args \<and> bind_kwargs args = Inr loc \<and>
          fetch_weather_from_api env (length (trace s) + 2) loc = Inl e"
  then show "loop env s (line # rest) =
      Raised e (s\<lparr>messages := ms1,
                  trace := trace s @ [Input line, ModelCall ms1 True, WeatherCall loc]\<rparr>)"
    using assms by (simp add: turn_unfold)
next
  assume "create env ms1 True = Inr (c # cs) \<and> function_call c = Some fc \<and>
          arguments fc = Literal args \<and> bind_kwargs args = Inr loc \<and>
          fetch_weather_from_api env (length (trace s) + 2) loc = Inr w \<and>
          create env (ms1 @ [function_msg w]) False = Inl e"
  then show "loop env s (line # rest) =
      Raised e (s\<lparr>messages := ms1 @ [function_msg w],
                  trace := trace s @ [Input line, ModelCall ms1 True, WeatherCall loc,
                                       ModelCall (ms1 @ [function_msg w]) False]\<rparr>)"
    using assms by (simp add: turn_unfold)
next
  assume "turn env (s\<lparr>trace := trace s @ [Input line]\<rparr>) (strip line) = Raised e s'"
  then show "loop env s (line # rest) = Raised e s'"
    using assms(1) by (rule loop_raised [rotated])
qed

theorem errors_end_session_witness:
  "loop (scripted_env (Inl (OpenAIError ''rate limit'')) (Inr final_reply) (Inr sample_body))
        start [''Berlin?'', ''again'']
     = Raised (OpenAIError ''rate limit'')
         (start\<lparr>messages := messages start @ [user_msg ''Berlin?''],
                 trace := trace start @
                   [Input ''Berlin?'', ModelCall (messages start @ [user_msg ''Berlin?'']) True]\<rparr>)
   \<and> loop (scripted_env (Inr (weather_request berlin)) (Inr final_reply) (Inl (ClientError ''timeout'')))
        start [''Berlin?'', ''again'']
     = Raised (ClientError ''timeout'')
         (start\<lparr>messages := messages start @ [user_msg ''Berlin?''],
                 trace := trace start @
                   [Input ''Berlin?'', ModelCall (messages start @ [user_msg ''Berlin?'']) True,
                    WeatherCall (PStr ''Berlin'')]\<rparr>)
   \<and> loop (scripted_env (Inr (weather_request berlin)) (Inl (OpenAIError ''rate limit'')) (Inr sample_body))
        start [''Berlin?'', ''again'']
     = Raised (OpenAIError ''rate limit'')
         (start\<lparr>messages := messages start @ [user_msg ''Berlin?'',
                     function_msg \<lparr>conditions = PStr ''clear sky'', temperature = float_of_rat 27\<rparr>],
                 trace := trace start @
                   [Input ''Berlin?'', ModelCall (messages start @ [user_msg ''Berlin?'']) True,
                    WeatherCall (PStr ''Berlin''),
                    ModelCall (messages start @ [user_msg ''Berlin?'',
                      function_msg \<lparr>conditions = PStr ''clear sky'', temperature = float_of_rat 27\<rparr>]) False]\<rparr>)"
proof -
  have q: "lower (strip ''Berlin?'') \<noteq> ''quit''"
    by (simp add: strip_def is_space_def whitespace_def lower_def)
  have s: "strip ''Berlin?'' = ''Berlin?''"
    by (simp add: strip_def is_space_def whitespace_def)
  have f: "fetch_weather_from_api (scripted_env a b (Inl e)) t loc = Inl e" for a b e t loc
    by (simp add: fetch_weather_from_api_def scripted_env_simps)
  note th = errors_end_session [OF q refl, where rest = "[''again'']" and s = start]
  show ?thesis
    using th [of "scripted_env (Inl (OpenAIError ''rate limit'')) (Inr final_reply) (Inr sample_body)"
               "OpenAIError ''rate limit''"]
          th [of "scripted_env (Inr (weather_request berlin)) (Inr final_reply) (Inl (ClientError ''timeout''))"
               "ClientError ''timeout''" "hd (weather_request berlin)" "[]"
               "\<lparr>fname = ''fetch_weather_from_api'', arguments = berlin\<rparr>"
               "PDict [(''location'', PStr ''Berlin'')]" "PStr ''Berlin''"]
          th [of "scripted_env (Inr (weather_request berlin)) (Inl (OpenAIError ''rate limit'')) (Inr sample_body)"
               "OpenAIError ''rate limit''" "hd (weather_request berlin)" "[]"
               "\<lparr>fname = ''fetch_weather_from_api'', arguments = berlin\<rparr>"
               "PDict [(''location'', PStr ''Berlin'')]" "PStr ''Berlin''"
               "\<lparr>conditions = PStr ''clear sky'', temperature = float_of_rat 27\<rparr>"]
    by (simp add: s scripted_env_simps weather_request_def berlin_def f fetch_sample)
qed





text \<open>
  C1. The arguments that the model sends are handed to \<open>eval\<close>, and the value is spread
  over the keyword parameters of the lookup. Two replies show what follows: an argument
  text that is not a literal is run as an expression, and a literal dict with a second
  key next to \<open>location\<close> makes the call raise \<open>TypeError\<close>; in neither case is the
  \<open>location\<close> entry alone taken and the rest ignored.
\<close>

theorem eval_payload_not_data_only:
  "turn (scripted_env (Inr (weather_request (Code ''__import__('os').system('id') or {'location': 'Berlin'}'')))
           (Inr final_reply) (Inr sample_body)) start ''Berlin?''
     = EvalCode ''__import__('os').system('id') or {'location': 'Berlin'}''
         (start\<lparr>messages := messages start @ [user_msg ''Berlin?''],
                 trace := trace start @ [ModelCall (messages start @ [user_msg ''Berlin?'']) True]\<rparr>)
   \<and> turn (scripted_env (Inr (weather_request (Literal (PDict [(''location'', PStr ''Berlin''),
                                                                (''units'', PStr ''metric'')]))))
           (Inr final_reply) (Inr sample_body)) start ''Berlin?''
     = Raised TypeError
         (start\<lparr>messages := messages start @ [user_msg ''Berlin?''],
                 trace := trace start @ [ModelCall (messages start @ [user_msg ''Berlin?'']) True]\<rparr>)"
  by (simp add: turn_unfold scripted_env_simps weather_request_def)

lemma loop_direct:
  assumes "\<forall>ms. \<exists>c cs. create env ms True = Inr (c # cs) \<and> function_call c = None"
    and "\<forall>line\<in>set lines. lower (strip line) \<noteq> ''quit''"
  shows "\<exists>s' ext. (\<forall>rest. loop env s (lines @ rest) = loop env s' rest)
           \<and> messages s' = messages s @ ext
           \<and> length ext = 2 * length lines
           \<and> map role ext = concat (replicate (length lines) [''user'', ''assistant''])
           \<and> (\<forall>i<length lines.
                 ext ! (2 * i) = user_msg (strip (lines ! i))
               \<and> (\<exists>c cs. create env (messages s @ take (2 * i + 1) ext) True = Inr (c # cs)
                         \<and> function_call c = None
                         \<and> ext ! (2 * i + 1) = assistant_msg (msg_content c)))"
  using assms(2)
proof (induction lines arbitrary: s)
  case Nil
  show ?case by (rule exI [of _ s], rule exI [of _ "[]"]) simp
next
  case (Cons line lines)
  let ?s0 = "s\<lparr>trace := trace s @ [Input line]\<rparr>"
  let ?u = "user_msg (strip line)"
  obtain c cs where c: "create env (messages s @ [?u]) True = Inr (c # cs)" "function_call c = None"
    using assms(1) by blast
  let ?a = "assistant_msg (msg_content c)"
  define s1 where "s1 = ?s0\<lparr>messages := messages s @ [?u, ?a],
      trace := trace ?s0 @ [ModelCall (messages s @ [?u]) True, Print (bot_line (msg_content c))]\<rparr>"
  have t: "turn env ?s0 (strip line) = Done s1"
    using turn_direct [of env ?s0 "strip line" c cs] c by (simp add: s1_def)
  have nq: "lower (strip line) \<noteq> ''quit''" using Cons.prems by simp
  have step: "loop env s ((line # lines) @ rest) = loop env s1 (lines @ rest)" for rest
    using nq t by (simp add: Let_def)
  have "\<forall>l\<in>set lines. lower (strip l) \<noteq> ''quit''" using Cons.prems by simp
  from Cons.IH [OF this, of s1] obtain s' ext where
    run: "\<forall>rest. loop env s1 (lines @ rest) = loop env s' rest"
    and ms: "messages s' = messages s1 @ ext"
    and len: "length ext = 2 * length lines"
    and roles: "map role ext = concat (replicate (length lines) [''user'', ''assistant''])"
    and nth: "\<forall>i<length lines.
                 ext ! (2 * i) = user_msg (strip (lines ! i))
               \<and> (\<exists>c cs. create env (messages s1 @ take (2 * i + 1) ext) True = Inr (c # cs)
                         \<and> function_call c = None
                         \<and> ext ! (2 * i + 1) = assistant_msg (msg_content c))"
    by blast
  have m1: "messages s1 = messages s @ [?u, ?a]" by (simp add: s1_def)
  let ?ext = "?u # ?a # ext"
  have "\<forall>i<length (line # lines).
          ?ext ! (2 * i) = user_msg (strip ((line # lines) ! i))
        \<and> (\<exists>c cs. create env (messages s @ take (2 * i + 1) ?ext) True = Inr (c # cs)
                  \<and> function_call c = None
                  \<and> ?ext ! (2 * i + 1) = assistant_msg (msg_content c))"
  proof (intro allI impI)
    fix i assume i: "i < length (line # lines)"
    show "?ext ! (2 * i) = user_msg (strip ((line # lines) ! i))
        \<and> (\<exists>c cs. create env (messages s @ take (2 * i + 1) ?ext) True = Inr (c # cs)
                  \<and> function_call c = None
                  \<and> ?ext ! (2 * i + 1) = assistant_msg (msg_content c))"
    proof (cases i)
      case 0
      then show ?thesis using c by auto
    next
      case (Suc j)
      then have j: "j < length lines" using i by simp
      from nth j obtain c' cs' where
        "ext ! (2 * j) = user_msg (strip (lines ! j))"
        "create env (messages s1 @ take (2 * j + 1) ext) True = Inr (c' # cs')"
        "function_call c' = None" "ext ! (2 * j + 1) = assistant_msg (msg_content c')"
        by blast
      then show ?thesis using Suc by (auto simp: m1)
    qed
  qed
  moreover have "\<forall>rest. loop env s ((line # lines) @ rest) = loop env s' rest"
    using step run by simp
  moreover have "messages s' = messages s @ ?ext" using ms m1 by simp
  moreover have "length ?ext = 2 * length (line # lines)" using len by simp
  moreover have "map role ?ext = concat (replicate (length (line # lines)) [''user'', ''assistant''])"
    using roles by (simp add: user_msg_def assistant_msg_def)
  ultimately show ?case by blast
qed

text \<open>
  C5. After \<open>N\<close> lines, none of them \<open>quit\<close>, each answered by the model directly, the
  transcript holds \<open>1 + 2 * N\<close> messages: the system message, then for each line in turn
  the user message with the stripped line and the assistant message with the model's
  answer to the transcript up to that user message.
\<close>

theorem direct_turns_transcript:
  assumes "client_init env = None"
    and "\<forall>ms. \<exists>c cs. create env ms True = Inr (c # cs) \<and> function_call c = None"
    and "\<forall>line\<in>set lines. lower (strip line) \<noteq> ''quit''"
  shows "\<exists>s. (\<forall>rest. chat_with_bot env (lines @ rest) = loop env s rest)
           \<and> length (messages s) = 1 + 2 * length lines
           \<and> map role (messages s) = ''system'' # concat (replicate (length lines) [''user'', ''assistant''])
           \<and> messages s ! 0 = system_msg
           \<and> (\<forall>i<length lines.
                 messages s ! (2 * i + 1) = user_msg (strip (lines ! i))
               \<and> (\<exists>c cs. create env (take (2 * i + 2) (messages s)) True = Inr (c # cs)
                         \<and> function_call c = None
                         \<and> messages s ! (2 * i + 2) = assistant_msg (msg_content c)))"
proof -
  let ?s0 = "\<lparr>messages = [system_msg], trace = [Print greeting]\<rparr>"
  from loop_direct [OF assms(2,3), of ?s0] obtain s ext where
    run: "\<forall>rest. loop env ?s0 (lines @ rest) = loop env s rest"
    and ms0: "messages s = messages ?s0 @ ext"
    and len: "length ext = 2 * length lines"
    and roles: "map role ext = concat (replicate (length lines) [''user'', ''assistant''])"
    and nth: "\<forall>i<length lines.
                 ext ! (2 * i) = user_msg (strip (lines ! i))
               \<and> (\<exists>c cs. create env (messages ?s0 @ take (2 * i + 1) ext) True = Inr (c # cs)
                         \<and> function_call c = None
                         \<and> ext ! (2 * i + 1) = assistant_msg (msg_content c))"
    by blast
  have ms: "messages s = system_msg # ext" using ms0 by simp
  have a: "\<forall>rest. chat_with_bot env (lines @ rest) = loop env s rest"
    using run assms(1) by (simp add: chat_with_bot_def)
  have b: "length (messages s) = 1 + 2 * length lines" using ms len by simp
  have c: "map role (messages s) = ''system'' # concat (replicate (length lines) [''user'', ''assistant''])"
    using roles by (simp add: ms system_msg_def)
  have d: "messages s ! 0 = system_msg" by (simp add: ms)
  have e: "\<forall>i<length lines.
                 messages s ! (2 * i + 1) = user_msg (strip (lines ! i))
               \<and> (\<exists>c cs. create env (take (2 * i + 2) (messages s)) True = Inr (c # cs)
                         \<and> function_call c = None
                         \<and> messages s ! (2 * i + 2) = assistant_msg (msg_content c))"
  proof (intro allI impI)
    fix i assume "i < length lines"
    with nth obtain c cs where
      1: "ext ! (2 * i) = user_msg (strip (lines ! i))"
      and 2: "create env (messages ?s0 @ take (2 * i + 1) ext) True = Inr (c # cs)"
      and 3: "function_call c = None"
      and 4: "ext ! (2 * i + 1) = assistant_msg (msg_content c)"
      by blast
    have i1: "2 * i + 1 = Suc (2 * i)" and i2: "2 * i + 2 = Suc (2 * i + 1)" by simp_all
    have "messages s ! (2 * i + 1) = ext ! (2 * i)"
      by (simp only: ms i1 nth_Cons_Suc)
    moreover have "messages s ! (2 * i + 2) = ext ! (2 * i + 1)"
      by (simp only: ms i2 nth_Cons_Suc)
    moreover have "take (2 * i + 2) (messages s) = system_msg # take (2 * i + 1) ext"
      by (simp only: ms i2 take_Suc_Cons)
    moreover have "messages ?s0 @ take (2 * i + 1) ext = system_msg # take (2 * i + 1) ext"
      by simp
    ultimately show "messages s ! (2 * i + 1) = user_msg (strip (lines ! i))
               \<and> (\<exists>c cs. create env (take (2 * i + 2) (messages s)) True = Inr (c # cs)
                         \<and> function_call c = None
                         \<and> messages s ! (2 * i + 2) = assistant_msg (msg_content c))"
      using 1 2 3 4 by metis
  qed
  show ?thesis
    by (rule exI [of _ s]) (intro conjI a b c d e)
qed

theorem direct_turns_transcript_witness:
  "(\<exists>s. chat_with_bot (scripted_env (Inr direct_reply) (Inr final_reply) (Inr sample_body))
            ([''hello'', '' hi ''] @ [''quit''])
          = loop (scripted_env (Inr direct_reply) (Inr final_reply) (Inr sample_body)) s [''quit'']
        \<and> length (messages s) = 5
        \<and> map role (messages s) = [''system'', ''user'', ''assistant'', ''user'', ''assistant''])
   \<and> messages (state_of (chat_with_bot (scripted_env (Inr direct_reply) (Inr final_reply) (Inr sample_body))
                  [''hello'', '' hi '', ''quit'']))
      = [system_msg, user_msg ''hello'', assistant_msg (Some ''Hello!''),
         user_msg ''hi'', assistant_msg (Some ''Hello!'')]"
proof -
  let ?env = "scripted_env (Inr direct_reply) (Inr final_reply) (Inr sample_body)"
  have h1: "client_init ?env = None" by (simp add: scripted_env_simps)
  have h2: "\<forall>ms. \<exists>c cs. create ?env ms True = Inr (c # cs) \<and> function_call c = None"
    by (simp add: scripted_env_simps direct_reply_def)
  have st: "strip ''hello'' = ''hello''" "strip '' hi '' = ''hi''" "strip ''quit'' = ''quit''"
    by (simp_all add: strip_def is_space_def whitespace_def)
  have lw: "lower ''hello'' \<noteq> ''quit''" "lower ''hi'' \<noteq> ''quit''" "lower ''quit'' = ''quit''"
    by (simp_all add: lower_def lower_char_def)
  have h3: "\<forall>line\<in>set [''hello'', '' hi '']. lower (strip line) \<noteq> ''quit''"
    using lw by (simp add: st)
  have "\<exists>s. (\<forall>rest. chat_with_bot ?env ([''hello'', '' hi ''] @ rest) = loop ?env s rest)
           \<and> length (messages s) = 1 + 2 * length [''hello'', '' hi '']
           \<and> map role (messages s) =
               ''system'' # concat (replicate (length [''hello'', '' hi '']) [''user'', ''assistant''])
           \<and> messages s ! 0 = system_msg
           \<and> (\<forall>i<length [''hello'', '' hi ''].
                 messages s ! (2 * i + 1) = user_msg (strip ([''hello'', '' hi ''] ! i))
               \<and> (\<exists>c cs. create ?env (take (2 * i + 2) (messages s)) True = Inr (c # cs)
                         \<and> function_call c = None
                         \<and> messages s ! (2 * i + 2) = assistant_msg (msg_content c)))"
    by (rule direct_turns_transcript [OF h1 h2 h3])
  then have a: "\<exists>s. chat_with_bot ?env ([''hello'', '' hi ''] @ [''quit'']) = loop ?env s [''quit'']
        \<and> length (messages s) = 5
        \<and> map role (messages s) = [''system'', ''user'', ''assistant'', ''user'', ''assistant'']"
  proof (elim exE conjE)
    fix s
    assume r: "\<forall>rest. chat_with_bot ?env ([''hello'', '' hi ''] @ rest) = loop ?env s rest"
      and l: "length (messages s) = 1 + 2 * length [''hello'', '' hi '']"
      and m: "map role (messages s) =
               ''system'' # concat (replicate (length [''hello'', '' hi '']) [''user'', ''assistant''])"
    have r': "chat_with_bot ?env ([''hello'', '' hi ''] @ [''quit'']) = loop ?env s [''quit'']"
      using r by (rule spec)
    have l': "length (messages s) = 5" using l by simp
    have "replicate (length [''hello'', '' hi '']) [''user'', ''assistant''] =
            [[''user'', ''assistant''], [''user'', ''assistant'']]"
      by (simp add: numeral_2_eq_2)
    then have m': "map role (messages s) = [''system'', ''user'', ''assistant'', ''user'', ''assistant'']"
      using m by simp
    show ?thesis
      by (rule exI [of _ s]) (intro conjI r' l' m')
  qed
  have b: "messages (state_of (chat_with_bot ?env [''hello'', '' hi '', ''quit'']))
      = [system_msg, user_msg ''hello'', assistant_msg (Some ''Hello!''),
         user_msg ''hi'', assistant_msg (Some ''Hello!'')]"
    using lw by (simp add: chat_with_bot_def Let_def st turn_unfold scripted_env_simps direct_reply_def)
  show ?thesis using a b by (rule conjI)
qed

section \<open>The transcript only grows\<close>










end
